theory Spec2Isabelle
  imports Complex_Main "HOL-Library.Word"
begin

section \<open>JavaScript primitives used by app.js\<close>

text \<open>
  The page script \<^verbatim>\<open>src/app/templates/static/js/app.js\<close> is modelled sequentially: every
  \<^verbatim>\<open>async\<close> function runs to completion, an \<^verbatim>\<open>await\<close> is a sequence point, a thrown
  \<^verbatim>\<open>Error\<close> is the left summand of a result. JavaScript strings are modelled as
  \<^typ>\<open>string\<close>, that is as sequences of code units below 256 (the range on which
  \<^verbatim>\<open>btoa\<close> is defined); numbers are modelled as \<^typ>\<open>int\<close>, which is exact for
  the safe integers of JavaScript (absolute value below \<open>2 ^ 53\<close>), with \<^verbatim>\<open>NaN\<close> a
  separate value. Outside the safe integers JavaScript rounds to binary64 and the model does
  not: what is proved about a price is proved for safe integers.
\<close>

datatype error = Error string

datatype jsval =
    JUndefined
  | JNull
  | JBool bool
  | JNumber int
  | JNaN
  | JString string
  | JArray "jsval list"
  | JObject "(string \<times> jsval) list"

subsection \<open>Number to string\<close>

definition digit_char :: "nat \<Rightarrow> char" where
  \<comment> \<open>the digits \<^verbatim>\<open>0-9a-z\<close> of \<^verbatim>\<open>Number.prototype.toString(radix)\<close>\<close>
  "digit_char d = (if d < 10 then char_of (48 + d) else char_of (87 + d))"

function toString_radix :: "nat \<Rightarrow> nat \<Rightarrow> string" where
  "toString_radix r n =
     (if r < 2 \<or> n < r then [digit_char n]
      else toString_radix r (n div r) @ [digit_char (n mod r)])"
  by pat_completeness auto
termination
  by (relation "measure (\<lambda>(r, n). n)") auto

declare toString_radix.simps [simp del]

definition Number_toString :: "int \<Rightarrow> string" where
  \<comment> \<open>\<^verbatim>\<open>String(n)\<close> for an integer number \<open>n\<close>: plain decimal, as JavaScript prints every
      safe integer. Beyond them JavaScript prints the shortest digits of the binary64 value,
      and from \<open>10 ^ 21\<close> on the exponent form; the model does not follow it there\<close>
  "Number_toString n =
     (if n < 0 then CHR ''-'' # toString_radix 10 (nat (- n)) else toString_radix 10 (nat n))"

fun join :: "string \<Rightarrow> string list \<Rightarrow> string" where
  "join sep [] = []"
| "join sep [x] = x"
| "join sep (x # y # ys) = x @ sep @ join sep (y # ys)"

fun String_js :: "jsval \<Rightarrow> string" where
  \<comment> \<open>\<^verbatim>\<open>String(v)\<close>\<close>
  "String_js JUndefined = ''undefined''"
| "String_js JNull = ''null''"
| "String_js (JBool b) = (if b then ''true'' else ''false'')"
| "String_js (JNumber n) = Number_toString n"
| "String_js JNaN = ''NaN''"
| "String_js (JString s) = s"
| "String_js (JArray xs) =
     join '','' (map (\<lambda>x. if x = JUndefined \<or> x = JNull then [] else String_js x) xs)"
| "String_js (JObject kvs) = ''[object Object]''"

definition padStart :: "nat \<Rightarrow> string \<Rightarrow> string \<Rightarrow> string" where
  \<comment> \<open>\<^verbatim>\<open>s.padStart(n, pad)\<close>: the pad string repeated and cut to the missing length\<close>
  "padStart n pad s =
     (if length s \<ge> n \<or> pad = [] then s
      else take (n - length s) (concat (replicate (n - length s) pad)) @ s)"

subsection \<open>parseInt\<close>

definition is_js_whitespace :: "char \<Rightarrow> bool" where
  "is_js_whitespace c = (of_char c \<in> {9, 10, 11, 12, 13, 32, 160 :: nat})"

definition digit_val :: "char \<Rightarrow> nat option" where
  "digit_val c =
     (let k = of_char c :: nat in
      if 48 \<le> k \<and> k \<le> 57 then Some (k - 48)
      else if 97 \<le> k \<and> k \<le> 122 then Some (k - 87)
      else if 65 \<le> k \<and> k \<le> 90 then Some (k - 55)
      else None)"

definition is_digit_in :: "nat \<Rightarrow> char \<Rightarrow> bool" where
  "is_digit_in r c = (case digit_val c of Some d \<Rightarrow> d < r | None \<Rightarrow> False)"

definition digits_value :: "nat \<Rightarrow> string \<Rightarrow> nat" where
  "digits_value r ds =
     foldl (\<lambda>a c. a * r + (case digit_val c of Some d \<Rightarrow> d | None \<Rightarrow> 0)) 0 ds"

definition parseInt :: "string \<Rightarrow> nat \<Rightarrow> int option" where
  \<comment> \<open>\<^verbatim>\<open>parseInt(s, radix)\<close>; radix 0 stands for an omitted radix, \<open>None\<close> for \<^verbatim>\<open>NaN\<close>.
      The result is the integer the digits denote, which is what JavaScript returns while it
      is a safe integer; a larger one JavaScript rounds to binary64, the model does not\<close>
  "parseInt s radix =
     (let t = dropWhile is_js_whitespace s;
          neg = (t \<noteq> [] \<and> hd t = CHR ''-'');
          t1 = (if t \<noteq> [] \<and> (hd t = CHR ''-'' \<or> hd t = CHR ''+'') then tl t else t);
          hex = ((radix = 0 \<or> radix = 16) \<and> (take 2 t1 = ''0x'' \<or> take 2 t1 = ''0X''));
          r = (if hex then 16 else if radix = 0 then 10 else radix);
          t2 = (if hex then drop 2 t1 else t1);
          ds = takeWhile (is_digit_in r) t2
      in if radix \<noteq> 0 \<and> (radix < 2 \<or> 36 < radix) then None
         else if ds = [] then None
         else Some ((if neg then - 1 else 1) * int (digits_value r ds)))"

definition js_add :: "int option \<Rightarrow> int \<Rightarrow> jsval" where
  \<comment> \<open>\<^verbatim>\<open>x + k\<close> for a number \<open>x\<close> that may be \<^verbatim>\<open>NaN\<close>: the exact sum, which is what
      JavaScript computes while the sum is a safe integer\<close>
  "js_add x k = (case x of None \<Rightarrow> JNaN | Some n \<Rightarrow> JNumber (n + k))"

subsection \<open>JSON.stringify and btoa\<close>

definition hex4 :: "nat \<Rightarrow> string" where
  "hex4 k = padStart 4 ''0'' (toString_radix 16 k)"

definition json_escape_char :: "char \<Rightarrow> string" where
  \<comment> \<open>one code unit inside \<^verbatim>\<open>QuoteJSONString\<close>\<close>
  "json_escape_char c =
     (let k = of_char c :: nat in
      if k = 8 then [CHR 0x5C, CHR ''b'']
      else if k = 9 then [CHR 0x5C, CHR ''t'']
      else if k = 10 then [CHR 0x5C, CHR ''n'']
      else if k = 12 then [CHR 0x5C, CHR ''f'']
      else if k = 13 then [CHR 0x5C, CHR ''r'']
      else if k = 34 then [CHR 0x5C, CHR 0x22]
      else if k = 92 then [CHR 0x5C, CHR 0x5C]
      else if k < 32 then [CHR 0x5C, CHR ''u''] @ hex4 k
      else [c])"

definition QuoteJSONString :: "string \<Rightarrow> string" where
  "QuoteJSONString s = CHR 0x22 # concat (map json_escape_char s) @ [CHR 0x22]"

fun JSON_stringify :: "jsval \<Rightarrow> string" where
  \<comment> \<open>\<^verbatim>\<open>JSON.stringify(v)\<close> for \<open>v\<close> other than \<^verbatim>\<open>undefined\<close> (app.js passes object
      literals only): \<^verbatim>\<open>undefined\<close> and \<^verbatim>\<open>NaN\<close> are \<^verbatim>\<open>null\<close> inside an array, a
      property whose value is \<^verbatim>\<open>undefined\<close> is left out of an object\<close>
  "JSON_stringify JUndefined = ''null''"
| "JSON_stringify JNull = ''null''"
| "JSON_stringify (JBool b) = (if b then ''true'' else ''false'')"
| "JSON_stringify (JNumber n) = Number_toString n"
| "JSON_stringify JNaN = ''null''"
| "JSON_stringify (JString s) = QuoteJSONString s"
| "JSON_stringify (JArray xs) = ''['' @ join '','' (map JSON_stringify xs) @ '']''"
| "JSON_stringify (JObject kvs) =
     ''{'' @ join '',''
        (map (\<lambda>kv. QuoteJSONString (fst kv) @ '':'' @ JSON_stringify (snd kv))
           (filter (\<lambda>kv. snd kv \<noteq> JUndefined) kvs)) @ ''}''"

declare JSON_stringify.simps [simp del]




section \<open>The page script app.js\<close>

subsection \<open>Global state and the outside world\<close>

text \<open>
  The configuration object is the JSON served by \<^verbatim>\<open>/api/config\<close>, with the fields the
  script reads. \<^verbatim>\<open>total_price_usdc_wei\<close> is absent (\<open>None\<close>) until \<^verbatim>\<open>loadConfig\<close>
  computes it; \<^verbatim>\<open>total_price_usdc\<close>, a floating-point display string, is left out.
\<close>

record config =
  network :: string
  chain_id :: string
  treasury_wallet :: string
  usdc_address :: string
  facilitator_base_url :: "string option"
  price_usdc_wei :: jsval
  total_price_usdc_wei :: "string option"

record app_state =
  web3 :: bool
  walletAddress :: "string option"
  CONFIG :: "config option"
  selectedCategory :: "string option"
  isCustomCategory :: bool

definition truthy :: "string option \<Rightarrow> bool" where
  \<comment> \<open>\<^verbatim>\<open>!!x\<close> for a value that is \<^verbatim>\<open>null\<close>, \<^verbatim>\<open>undefined\<close> or a string\<close>
  "truthy x = (case x of None \<Rightarrow> False | Some s \<Rightarrow> s \<noteq> [])"

definition OXMETA_FEE_USDC_WEI :: int where
  "OXMETA_FEE_USDC_WEI = 10000"

datatype config_fetch =
    FetchRejected error
  | NotOk nat
  | BodyRejected error
  | Body config

datatype news_fetch =
    NewsRejected error
  | NewsNotOk string
  | NewsOk

text \<open>
  What the script calls and does not define: the HTTP endpoints, the web3 library
  (\<^verbatim>\<open>toChecksumAddress\<close>, the token contract's \<^verbatim>\<open>name()\<close> and \<^verbatim>\<open>version()\<close>), the
  clock and the wallet's \<^verbatim>\<open>eth_signTypedData_v4\<close>. The random source of
  \<^verbatim>\<open>window.crypto.getRandomValues\<close> is an infinite supply of bytes, read from the front.
\<close>

record env =
  fetch_config :: config_fetch
  toChecksumAddress :: "string \<Rightarrow> error + string"
  token_name :: "string \<Rightarrow> error + string"
  token_version :: "string \<Rightarrow> error + string"
  Date_now :: int
  eth_signTypedData_v4 :: "string \<Rightarrow> string \<Rightarrow> error + string"
  fetch_news :: "string \<Rightarrow> (string \<times> string) list \<Rightarrow> news_fetch"

type_synonym entropy = "nat \<Rightarrow> 8 word"

datatype event =
    FetchConfig
  | Alert string
  | ContractCall string string
  | GetRandomValues nat
  | SignTypedData string string
  | FetchNews string "(string \<times> string) list"
  | FlowError string
  | DisplayNews

definition getRandomValues :: "8 word list \<Rightarrow> entropy \<Rightarrow> 8 word list \<times> entropy" where
  \<comment> \<open>fills the typed array in place: as many fresh bytes as the array is long\<close>
  "getRandomValues arr ent = (map ent [0..<length arr], \<lambda>i. ent (i + length arr))"

definition Uint8Array :: "nat \<Rightarrow> 8 word list" where
  "Uint8Array n = replicate n 0"

subsection \<open>loadConfig\<close>

definition error_message :: "error \<Rightarrow> string" where
  "error_message e = (case e of Error m \<Rightarrow> m)"

definition loadConfig :: "env \<Rightarrow> app_state \<Rightarrow> event list \<times> app_state \<times> config option" where
  \<comment> \<open>the global \<^verbatim>\<open>CONFIG\<close> is assigned as soon as the body is parsed, before the checks\<close>
  "loadConfig env s =
     (case fetch_config env of
        FetchRejected e \<Rightarrow>
          ([FetchConfig, Alert (''Failed to load configuration: '' @ error_message e)], s, None)
      | NotOk status \<Rightarrow>
          ([FetchConfig,
            Alert (''Failed to load configuration: Failed to fetch config: ''
                   @ Number_toString (int status))], s, None)
      | BodyRejected e \<Rightarrow>
          ([FetchConfig, Alert (''Failed to load configuration: '' @ error_message e)], s, None)
      | Body c \<Rightarrow>
          if \<not> truthy (facilitator_base_url c)
          then ([FetchConfig, Alert ''Failed to load configuration: Missing facilitator_base_url''],
                s\<lparr>CONFIG := Some c\<rparr>, None)
          else
            let price = String_js (price_usdc_wei c);
                c' = c\<lparr>price_usdc_wei := JString price,
                       total_price_usdc_wei :=
                         Some (String_js (js_add (parseInt price 0) OXMETA_FEE_USDC_WEI))\<rparr>
            in ([FetchConfig], s\<lparr>CONFIG := Some c'\<rparr>, Some c'))"

subsection \<open>createEIP3009Authorization\<close>

record authorization =
  auth_from :: string
  auth_to :: string
  auth_value :: "string option"
  auth_validAfter :: string
  auth_validBefore :: string
  auth_nonce :: string
  auth_token :: string

record signed_authorization =
  authorization :: authorization
  signature :: string

definition opt_string :: "string option \<Rightarrow> jsval" where
  "opt_string x = (case x of None \<Rightarrow> JUndefined | Some s \<Rightarrow> JString s)"

definition opt_number :: "int option \<Rightarrow> jsval" where
  "opt_number x = (case x of None \<Rightarrow> JNaN | Some n \<Rightarrow> JNumber n)"

definition type_field :: "string \<Rightarrow> string \<Rightarrow> jsval" where
  "type_field n t = JObject [(''name'', JString n), (''type'', JString t)]"

definition TransferWithAuthorization_type :: jsval where
  "TransferWithAuthorization_type =
     JArray [type_field ''from'' ''address'', type_field ''to'' ''address'',
             type_field ''value'' ''uint256'', type_field ''validAfter'' ''uint256'',
             type_field ''validBefore'' ''uint256'', type_field ''nonce'' ''bytes32'']"

definition EIP712Domain_type :: jsval where
  "EIP712Domain_type =
     JArray [type_field ''name'' ''string'', type_field ''version'' ''string'',
             type_field ''chainId'' ''uint256'', type_field ''verifyingContract'' ''address'']"

definition typed_data :: "jsval \<Rightarrow> jsval \<Rightarrow> jsval" where
  \<comment> \<open>the object literal handed to \<^verbatim>\<open>JSON.stringify\<close> for the wallet\<close>
  "typed_data domain message =
     JObject [(''types'', JObject [(''EIP712Domain'', EIP712Domain_type),
                                   (''TransferWithAuthorization'', TransferWithAuthorization_type)]),
              (''primaryType'', JString ''TransferWithAuthorization''),
              (''domain'', domain),
              (''message'', message)]"

definition make_nonce :: "8 word list \<Rightarrow> string" where
  "make_nonce nonceBytes =
     ''0x'' @ join [] (map (\<lambda>b. padStart 2 ''0'' (toString_radix 16 (unat b))) nonceBytes)"

definition createEIP3009Authorization ::
  "env \<Rightarrow> app_state \<Rightarrow> entropy \<Rightarrow> event list \<times> entropy \<times> (error + signed_authorization)" where
  "createEIP3009Authorization env s ent =
     (if \<not> web3 s then ([], ent, Inl (Error ''Web3 not initialized''))
      else case walletAddress s of
        None \<Rightarrow> ([], ent, Inl (Error ''Wallet address not set''))
      | Some wallet \<Rightarrow>
      if wallet = [] then ([], ent, Inl (Error ''Wallet address not set''))
      else (case CONFIG s of
        None \<Rightarrow> ([], ent, Inl (Error ''Config not loaded''))
      | Some cfg \<Rightarrow>
      (case toChecksumAddress env wallet of
        Inl e \<Rightarrow> ([], ent, Inl e)
      | Inr fromAddress \<Rightarrow>
      (case toChecksumAddress env (treasury_wallet cfg) of
        Inl e \<Rightarrow> ([], ent, Inl e)
      | Inr toAddress \<Rightarrow>
      (case toChecksumAddress env (usdc_address cfg) of
        Inl e \<Rightarrow> ([], ent, Inl e)
      | Inr tokenAddress \<Rightarrow>
      let calls = [ContractCall tokenAddress ''name'', ContractCall tokenAddress ''version'']
      in
      (case token_name env tokenAddress of
        Inl e \<Rightarrow> (calls, ent, Inl e)
      | Inr tokenName \<Rightarrow>
      (case token_version env tokenAddress of
        Inl e \<Rightarrow> (calls, ent, Inl e)
      | Inr tokenVersion \<Rightarrow>
      let (nonceBytes, ent') = getRandomValues (Uint8Array 32) ent;
          nonce = make_nonce nonceBytes;
          domain = JObject [(''name'', JString tokenName),
                            (''version'', JString tokenVersion),
                            (''chainId'', opt_number (parseInt (chain_id cfg) 16)),
                            (''verifyingContract'', JString tokenAddress)];
          validAfter = ''0'';
          validBefore = Number_toString (Date_now env div 1000 + 86400);
          message = JObject [(''from'', JString fromAddress),
                             (''to'', JString toAddress),
                             (''value'', opt_string (total_price_usdc_wei cfg)),
                             (''validAfter'', JString validAfter),
                             (''validBefore'', JString validBefore),
                             (''nonce'', JString nonce)];
          request = JSON_stringify (typed_data domain message);
          evs = calls @ [GetRandomValues 32, SignTypedData fromAddress request]
      in
      (case eth_signTypedData_v4 env fromAddress request of
        Inl e \<Rightarrow> (evs, ent', Inl e)
      | Inr sig \<Rightarrow>
          (evs, ent',
           Inr \<lparr>authorization =
                  \<lparr>auth_from = fromAddress, auth_to = toAddress,
                   auth_value = total_price_usdc_wei cfg,
                   auth_validAfter = validAfter, auth_validBefore = validBefore,
                   auth_nonce = nonce, auth_token = tokenAddress\<rparr>,
                signature = sig\<rparr>)))))))))"

subsection \<open>initiatePayment\<close>






section \<open>Properties and example data\<close>


definition lower_hex_digit :: "char \<Rightarrow> bool" where
  \<comment> \<open>one of \<^verbatim>\<open>0-9\<close> or \<^verbatim>\<open>a-f\<close>\<close>
  "lower_hex_digit c =
     (let k = of_char c :: nat in (48 \<le> k \<and> k \<le> 57) \<or> (97 \<le> k \<and> k \<le> 102))"


definition nonce_format :: "string \<Rightarrow> bool" where
  \<comment> \<open>\<^verbatim>\<open>0x\<close> followed by exactly 64 lowercase hexadecimal digits\<close>
  "nonce_format n =
     (take 2 n = ''0x'' \<and> length (drop 2 n) = 64 \<and> list_all lower_hex_digit (drop 2 n))"

definition hex_pair :: "8 word \<Rightarrow> string" where
  \<comment> \<open>a byte as two hexadecimal digits, the high one first\<close>
  "hex_pair b = [digit_char (unat b div 16), digit_char (unat b mod 16)]"

definition is_paid_request :: "event \<Rightarrow> bool" where
  \<comment> \<open>a content request that carries an \<^verbatim>\<open>X-Payment\<close> header\<close>
  "is_paid_request ev =
     (case ev of FetchNews url headers \<Rightarrow> map_of headers ''X-Payment'' \<noteq> None | _ \<Rightarrow> False)"


definition raw_config_ex :: config where
  "raw_config_ex =
     \<lparr>network = ''base-sepolia'', chain_id = ''0x14a34'',
      treasury_wallet = ''0x00000000000000000000000000000000000000aa'',
      usdc_address = ''0x00000000000000000000000000000000000000bb'',
      facilitator_base_url = Some ''https://facilitator.0xmeta.ai'',
      price_usdc_wei = JNumber 10000, total_price_usdc_wei = None\<rparr>"

definition env_ex :: env where
  \<comment> \<open>a stand-in checksum (it capitalises \<^verbatim>\<open>a\<close>), a token that answers, a wallet that signs\<close>
  "env_ex =
     \<lparr>fetch_config = Body raw_config_ex,
      toChecksumAddress = (\<lambda>a. Inr (map (\<lambda>c. if c = CHR ''a'' then CHR ''A'' else c) a)),
      token_name = (\<lambda>a. Inr ''USDC''),
      token_version = (\<lambda>a. Inr ''2''),
      Date_now = 1700000000123,
      eth_signTypedData_v4 = (\<lambda>a t. Inr ''0xsig''),
      fetch_news = (\<lambda>u h. NewsOk)\<rparr>"

definition config_ex :: config where
  "config_ex = raw_config_ex\<lparr>price_usdc_wei := JString ''10000'',
                 total_price_usdc_wei := Some ''20000''\<rparr>"

definition state_ex :: app_state where
  "state_ex =
     \<lparr>web3 = True, walletAddress = Some ''0x00000000000000000000000000000000000000ca'',
      CONFIG = Some config_ex, selectedCategory = Some ''bitcoin'', isCustomCategory = False\<rparr>"

definition entropy_ex :: entropy where
  "entropy_ex = (\<lambda>i. of_nat i)"

definition entropy_const :: entropy where
  \<comment> \<open>a source that yields the same byte for ever\<close>
  "entropy_const = (\<lambda>i. 7)"

definition signed_ex :: signed_authorization where
  "signed_ex =
     \<lparr>authorization =
        \<lparr>auth_from = ''0x00000000000000000000000000000000000000cA'',
         auth_to = ''0x00000000000000000000000000000000000000AA'',
         auth_value = Some ''20000'',
         auth_validAfter = ''0'',
         auth_validBefore = ''1700086400'',
         auth_nonce = ''0x000102030405060708090a0b0c0d0e0f101112131415161718191a1b1c1d1e1f'',
         auth_token = ''0x00000000000000000000000000000000000000bb''\<rparr>,
      signature = ''0xsig''\<rparr>"

definition is_random_draw :: "event \<Rightarrow> bool" where
  "is_random_draw ev = (case ev of GetRandomValues n \<Rightarrow> True | _ \<Rightarrow> False)"

definition signed_const :: signed_authorization where
  \<comment> \<open>what the example run returns when the random source is \<open>entropy_const\<close>\<close>
  "signed_const =
     \<lparr>authorization =
        \<lparr>auth_from = ''0x00000000000000000000000000000000000000cA'',
         auth_to = ''0x00000000000000000000000000000000000000AA'',
         auth_value = Some ''20000'',
         auth_validAfter = ''0'',
         auth_validBefore = ''1700086400'',
         auth_nonce = ''0x0707070707070707070707070707070707070707070707070707070707070707'',
         auth_token = ''0x00000000000000000000000000000000000000bb''\<rparr>,
      signature = ''0xsig''\<rparr>"

definition request_ex :: string where
  \<comment> \<open>the text the example run hands to the wallet\<close>
  "request_ex =
     JSON_stringify (JObject
       [(''types'', JObject [(''EIP712Domain'', EIP712Domain_type),
                             (''TransferWithAuthorization'', TransferWithAuthorization_type)]),
        (''primaryType'', JString ''TransferWithAuthorization''),
        (''domain'', JObject
           [(''name'', JString ''USDC''), (''version'', JString ''2''),
            (''chainId'', JNumber 84532),
            (''verifyingContract'', JString ''0x00000000000000000000000000000000000000bb'')]),
        (''message'', JObject
           [(''from'', JString ''0x00000000000000000000000000000000000000cA''),
            (''to'', JString ''0x00000000000000000000000000000000000000AA''),
            (''value'', JString ''20000''),
            (''validAfter'', JString ''0''),
            (''validBefore'', JString ''1700086400''),
            (''nonce'',
             JString ''0x000102030405060708090a0b0c0d0e0f101112131415161718191a1b1c1d1e1f'')])])"


definition state_start :: app_state where
  \<comment> \<open>the globals as the script declares them\<close>
  "state_start =
     \<lparr>web3 = False, walletAddress = None, CONFIG = None, selectedCategory = None,
      isCustomCategory = False\<rparr>"

definition raw_config_rejected :: config where
  \<comment> \<open>a response that \<^verbatim>\<open>loadConfig\<close> rejects: no \<^verbatim>\<open>facilitator_base_url\<close>\<close>
  "raw_config_rejected = raw_config_ex\<lparr>facilitator_base_url := None\<rparr>"

definition env_rejected :: env where
  "env_rejected = env_ex\<lparr>fetch_config := Body raw_config_rejected\<rparr>"

definition state_stale :: app_state where
  \<comment> \<open>the rejected response still in \<^verbatim>\<open>CONFIG\<close>, a wallet connected, a category selected\<close>
  "state_stale = state_ex\<lparr>CONFIG := Some raw_config_rejected\<rparr>"


definition request_stale :: string where
  \<comment> \<open>the text handed to the wallet on the run from \<open>state_stale\<close>\<close>
  "request_stale =
     JSON_stringify (JObject
       [(''types'', JObject [(''EIP712Domain'', EIP712Domain_type),
                             (''TransferWithAuthorization'', TransferWithAuthorization_type)]),
        (''primaryType'', JString ''TransferWithAuthorization''),
        (''domain'', JObject
           [(''name'', JString ''USDC''), (''version'', JString ''2''),
            (''chainId'', JNumber 84532),
            (''verifyingContract'', JString ''0x00000000000000000000000000000000000000bb'')]),
        (''message'', JObject
           [(''from'', JString ''0x00000000000000000000000000000000000000cA''),
            (''to'', JString ''0x00000000000000000000000000000000000000AA''),
            (''validAfter'', JString ''0''),
            (''validBefore'', JString ''1700086400''),
            (''nonce'',
             JString ''0x000102030405060708090a0b0c0d0e0f101112131415161718191a1b1c1d1e1f'')])])"




section \<open>The payment ledger of 001_initial_schema.sql\<close>

text \<open>
  The table \<^verbatim>\<open>payment_transactions\<close> as the migration declares it. A row is a complete
  tuple, after the engine has filled in the column defaults; a nullable column is an option.
  The column the specification calls the payment key is \<^verbatim>\<open>payment_hash\<close>. The migration
  drops and recreates the table, so the ledger starts empty; a statement that violates a
  declared constraint fails and leaves the table as it was.
\<close>

record payment_transaction =
  row_id :: "128 word"
  payment_hash :: "string option"
  endpoint :: "string option"
  tx_category :: "string option"
  amount :: "real option"
  verified :: "bool option"
  settled :: "bool option"
  user_identifier :: "string option"
  user_wallet :: "string option"
  created_at :: "int option"
  verified_at :: "int option"
  settled_at :: "int option"
  transaction_data :: "string option"

datatype db_error =
    not_null_violation string
  | string_data_right_truncation string
  | unique_violation string

definition fits :: "nat \<Rightarrow> string option \<Rightarrow> bool" where
  \<comment> \<open>\<^verbatim>\<open>VARCHAR(n)\<close>: a value, if any, of at most \<open>n\<close> characters. PostgreSQL also takes
      a longer value whose excess is spaces only, cut to \<open>n\<close> characters; the model refuses
      it, so its tables are among those PostgreSQL can reach\<close>
  "fits n v = (case v of None \<Rightarrow> True | Some s \<Rightarrow> length s \<le> n)"

definition check_row :: "payment_transaction \<Rightarrow> payment_transaction list \<Rightarrow> db_error option" where
  \<comment> \<open>the declared constraints of a new row against the rows already there\<close>
  "check_row r others =
     (if \<not> fits 200 (payment_hash r) then Some (string_data_right_truncation ''payment_hash'')
      else if \<not> fits 100 (endpoint r) then Some (string_data_right_truncation ''endpoint'')
      else if \<not> fits 50 (tx_category r) then Some (string_data_right_truncation ''category'')
      else if \<not> fits 200 (user_identifier r)
        then Some (string_data_right_truncation ''user_identifier'')
      else if \<not> fits 100 (user_wallet r) then Some (string_data_right_truncation ''user_wallet'')
      else if payment_hash r = None then Some (not_null_violation ''payment_hash'')
      else if endpoint r = None then Some (not_null_violation ''endpoint'')
      else if amount r = None then Some (not_null_violation ''amount'')
      else if row_id r \<in> set (map row_id others)
        then Some (unique_violation ''payment_transactions_pkey'')
      else if payment_hash r \<in> set (map payment_hash others)
        then Some (unique_violation ''payment_transactions_payment_hash_key'')
      else None)"

datatype db_statement =
    Insert payment_transaction
  | Update "128 word" payment_transaction
  | Delete "128 word"

fun execute :: "db_statement \<Rightarrow> payment_transaction list \<Rightarrow> db_error + payment_transaction list"
  where
  "execute (Insert r) t =
     (case check_row r t of Some e \<Rightarrow> Inl e | None \<Rightarrow> Inr (t @ [r]))"
| "execute (Update k r) t =
     (if k \<notin> set (map row_id t) then Inr t
      else case check_row r (filter (\<lambda>x. row_id x \<noteq> k) t) of
             Some e \<Rightarrow> Inl e
           | None \<Rightarrow> Inr (map (\<lambda>x. if row_id x = k then r else x) t))"
| "execute (Delete k) t = Inr (filter (\<lambda>x. row_id x \<noteq> k) t)"

fun run_statements :: "db_statement list \<Rightarrow> payment_transaction list \<Rightarrow> payment_transaction list"
  where
  "run_statements [] t = t"
| "run_statements (st # sts) t =
     run_statements sts (case execute st t of Inl e \<Rightarrow> t | Inr t' \<Rightarrow> t')"

definition ledger_ok :: "payment_transaction list \<Rightarrow> bool" where
  \<comment> \<open>the two unique indexes hold\<close>
  "ledger_ok t = (distinct (map row_id t) \<and> distinct (map payment_hash t))"

definition row_ex :: payment_transaction where
  "row_ex =
     \<lparr>row_id = 1, payment_hash = Some ''0xabc'', endpoint = Some ''/news/bitcoin'',
      tx_category = Some ''bitcoin'', amount = Some 20000, verified = Some True,
      settled = Some False, user_identifier = None, user_wallet = None,
      created_at = Some 1700000000, verified_at = Some 1700000000, settled_at = None,
      transaction_data = None\<rparr>"

section \<open>Decoding the envelope\<close>




definition is_json_whitespace :: "char \<Rightarrow> bool" where
  \<comment> \<open>Modelled from the spec: the JSON parser is missing; space, tab, line feed, return\<close>
  "is_json_whitespace c = (of_char c \<in> {32, 9, 10, 13 :: nat})"

definition skip_ws :: "string \<Rightarrow> string" where
  \<comment> \<open>Modelled from the spec: the JSON parser is missing\<close>
  "skip_ws s = dropWhile is_json_whitespace s"











definition delimited :: "string \<Rightarrow> bool" where
  \<comment> \<open>what follows a value in the text \<^verbatim>\<open>JSON.stringify\<close> writes: nothing, a comma or a
      closing bracket\<close>
  "delimited rest = (rest = [] \<or> hd rest \<in> {CHR '','', CHR ''}'', CHR '']''})"



section \<open>Facts about the primitives\<close>

lemma join_Nil_concat: "join [] xs = concat xs"
proof (induction xs)
  case Nil
  then show ?case by simp
next
  case (Cons x xs)
  then show ?case by (cases xs) simp_all
qed

lemma toString_radix_small: "n < r \<Longrightarrow> toString_radix r n = [digit_char n]"
  by (simp add: toString_radix.simps)

lemma toString_radix_step:
  "2 \<le> r \<Longrightarrow> r \<le> n \<Longrightarrow>
     toString_radix r n = toString_radix r (n div r) @ [digit_char (n mod r)]"
  by (subst toString_radix.simps) simp


lemma byte_hex_digits:
  "padStart 2 ''0'' (toString_radix 16 (unat (b :: 8 word))) = hex_pair b"
proof -
  have bound: "unat b < 256"
    using unsigned_less [of b] by simp
  show ?thesis
  proof (cases "unat b < 16")
    case True
    have "char_of (48 :: nat) = CHR ''0''" by code_simp
    with True show ?thesis
      by (simp add: toString_radix_small padStart_def digit_char_def hex_pair_def)
  next
    case False
    then have "unat b div 16 < 16" using bound by simp
    with False show ?thesis
      by (simp add: toString_radix_step toString_radix_small padStart_def hex_pair_def)
  qed
qed

lemma lower_hex_digit_char: "d < 16 \<Longrightarrow> lower_hex_digit (digit_char d)"
  by (simp add: lower_hex_digit_def digit_char_def)

lemma make_nonce_hex_pairs: "make_nonce bs = ''0x'' @ concat (map hex_pair bs)"
  by (simp add: make_nonce_def join_Nil_concat byte_hex_digits)

lemma hex_pairs_length: "length (concat (map hex_pair bs)) = 2 * length bs"
  by (induction bs) (simp_all add: hex_pair_def)

lemma hex_pairs_digits: "list_all lower_hex_digit (concat (map hex_pair bs))"
proof (induction bs)
  case Nil
  then show ?case by simp
next
  case (Cons b bs)
  have "unat b < 256" using unsigned_less [of b] by simp
  then have "unat b div 16 < 16" by simp
  with Cons show ?case by (simp add: lower_hex_digit_char hex_pair_def)
qed

subsection \<open>parseInt reads back what String writes\<close>










subsection \<open>The runs of the builder\<close>

lemma createEIP3009Authorization_Inr:
  assumes "createEIP3009Authorization env s ent = (evs, ent', Inr r)"
  obtains wallet cfg fromAddress toAddress tokenAddress tokenName tokenVersion sig request where
    "web3 s" "walletAddress s = Some wallet" "wallet \<noteq> []" "CONFIG s = Some cfg"
    "toChecksumAddress env wallet = Inr fromAddress"
    "toChecksumAddress env (treasury_wallet cfg) = Inr toAddress"
    "toChecksumAddress env (usdc_address cfg) = Inr tokenAddress"
    "token_name env tokenAddress = Inr tokenName"
    "token_version env tokenAddress = Inr tokenVersion"
    "request = JSON_stringify (typed_data
        (JObject [(''name'', JString tokenName), (''version'', JString tokenVersion),
                  (''chainId'', opt_number (parseInt (chain_id cfg) 16)),
                  (''verifyingContract'', JString tokenAddress)])
        (JObject [(''from'', JString fromAddress), (''to'', JString toAddress),
                  (''value'', opt_string (total_price_usdc_wei cfg)),
                  (''validAfter'', JString ''0''),
                  (''validBefore'', JString (Number_toString (Date_now env div 1000 + 86400))),
                  (''nonce'', JString (make_nonce (map ent [0..<32])))]))"
    "eth_signTypedData_v4 env fromAddress request = Inr sig"
    "evs = [ContractCall tokenAddress ''name'', ContractCall tokenAddress ''version'',
            GetRandomValues 32, SignTypedData fromAddress request]"
    "ent' = (\<lambda>i. ent (i + 32))"
    "r = \<lparr>authorization =
            \<lparr>auth_from = fromAddress, auth_to = toAddress,
             auth_value = total_price_usdc_wei cfg,
             auth_validAfter = ''0'',
             auth_validBefore = Number_toString (Date_now env div 1000 + 86400),
             auth_nonce = make_nonce (map ent [0..<32]), auth_token = tokenAddress\<rparr>,
          signature = sig\<rparr>"
  using assms
  unfolding createEIP3009Authorization_def Let_def getRandomValues_def Uint8Array_def
  by (auto split: if_splits option.splits sum.splits)

lemma createEIP3009Authorization_signs:
  assumes "createEIP3009Authorization env s ent = (evs, ent', res)"
    and "SignTypedData a request \<in> set evs"
  obtains wallet cfg toAddress tokenAddress tokenName tokenVersion where
    "walletAddress s = Some wallet" "CONFIG s = Some cfg"
    "toChecksumAddress env wallet = Inr a"
    "toChecksumAddress env (treasury_wallet cfg) = Inr toAddress"
    "toChecksumAddress env (usdc_address cfg) = Inr tokenAddress"
    "token_name env tokenAddress = Inr tokenName"
    "token_version env tokenAddress = Inr tokenVersion"
    "request = JSON_stringify (typed_data
        (JObject [(''name'', JString tokenName), (''version'', JString tokenVersion),
                  (''chainId'', opt_number (parseInt (chain_id cfg) 16)),
                  (''verifyingContract'', JString tokenAddress)])
        (JObject [(''from'', JString a), (''to'', JString toAddress),
                  (''value'', opt_string (total_price_usdc_wei cfg)),
                  (''validAfter'', JString ''0''),
                  (''validBefore'', JString (Number_toString (Date_now env div 1000 + 86400))),
                  (''nonce'', JString (make_nonce (map ent [0..<32])))]))"
  using assms
  unfolding createEIP3009Authorization_def Let_def getRandomValues_def Uint8Array_def
  by (auto split: if_splits option.splits sum.splits)

lemma createEIP3009Authorization_draws:
  assumes "createEIP3009Authorization env s ent = (evs, ent', res)"
  shows "(filter (\<lambda>ev. case ev of GetRandomValues n \<Rightarrow> True | _ \<Rightarrow> False) evs = []
            \<and> ent' = ent \<and> (\<forall>r. res \<noteq> Inr r))
         \<or> (filter (\<lambda>ev. case ev of GetRandomValues n \<Rightarrow> True | _ \<Rightarrow> False) evs
               = [GetRandomValues 32]
            \<and> ent' = (\<lambda>i. ent (i + 32)))"
  using assms
  unfolding createEIP3009Authorization_def Let_def getRandomValues_def Uint8Array_def
  by (auto split: if_splits option.splits sum.splits)


subsection \<open>The example run\<close>

lemma upt_32:
  "[0..<32] = [0, 1, 2, 3, 4, 5, 6, 7, 8, 9, 10, 11, 12, 13, 14, 15, 16, 17, 18, 19,
     20, 21, 22, 23, 24, 25, 26, 27, 28, 29, 30, 31 :: nat]"
  by code_simp

lemma nonce_ex:
  "make_nonce (map entropy_ex [0..<32]) =
     ''0x000102030405060708090a0b0c0d0e0f101112131415161718191a1b1c1d1e1f''"
  by (simp add: make_nonce_hex_pairs hex_pair_def entropy_ex_def upt_32 digit_char_def
      char_of_eq_iff)

lemma nonce_const:
  "make_nonce (map entropy_const [0..<32]) =
     ''0x0707070707070707070707070707070707070707070707070707070707070707''"
  by (simp add: make_nonce_hex_pairs hex_pair_def entropy_const_def upt_32 digit_char_def
      char_of_eq_iff)

lemma valid_before_ex: "Number_toString 1700086400 = ''1700086400''"
  by (simp add: Number_toString_def toString_radix.simps digit_char_def char_of_eq_iff)


lemma builder_ex:
  "snd (snd (createEIP3009Authorization env_ex state_ex entropy_ex)) = Inr signed_ex"
  by (simp add: createEIP3009Authorization_def env_ex_def state_ex_def config_ex_def
      raw_config_ex_def signed_ex_def getRandomValues_def Uint8Array_def Let_def nonce_ex
      valid_before_ex)

lemma builder_ex_run:
  "createEIP3009Authorization env_ex state_ex entropy_ex =
     (fst (createEIP3009Authorization env_ex state_ex entropy_ex),
      fst (snd (createEIP3009Authorization env_ex state_ex entropy_ex)), Inr signed_ex)"
  using builder_ex by (simp add: prod_eq_iff)

lemma chain_id_ex: "parseInt ''0x14a34'' 16 = Some 84532"
  by (simp add: parseInt_def Let_def is_js_whitespace_def is_digit_in_def digit_val_def
      digits_value_def)

lemma builder_ex_events:
  "fst (createEIP3009Authorization env_ex state_ex entropy_ex) =
     [ContractCall ''0x00000000000000000000000000000000000000bb'' ''name'',
      ContractCall ''0x00000000000000000000000000000000000000bb'' ''version'',
      GetRandomValues 32,
      SignTypedData ''0x00000000000000000000000000000000000000cA'' request_ex]"
  by (simp add: createEIP3009Authorization_def env_ex_def state_ex_def config_ex_def
      raw_config_ex_def getRandomValues_def Uint8Array_def Let_def nonce_ex
      valid_before_ex chain_id_ex request_ex_def typed_data_def opt_number_def opt_string_def)

lemma map_shift: "map (\<lambda>i. f (i + k)) [0..<n] = map f [k..<k + n]"
  by (rule nth_equalityI) (simp_all add: add.commute)

lemma entropy_const_shift: "(\<lambda>i. entropy_const (i + 32)) = entropy_const"
  by (simp add: entropy_const_def)

lemma builder_const:
  "snd (createEIP3009Authorization env_ex state_ex entropy_const) = (entropy_const, Inr signed_const)"
  by (simp add: createEIP3009Authorization_def env_ex_def state_ex_def config_ex_def
      raw_config_ex_def signed_const_def getRandomValues_def Uint8Array_def Let_def nonce_const
      valid_before_ex entropy_const_shift)

lemma builder_ex_succeeds:
  "\<exists>r. snd (snd (createEIP3009Authorization env_ex state_ex ent)) = Inr r"
  by (simp add: createEIP3009Authorization_def env_ex_def state_ex_def config_ex_def
      raw_config_ex_def getRandomValues_def Uint8Array_def Let_def)

subsection \<open>The runs after a rejected response and after a response with no price\<close>

lemma loadConfig_rejected:
  "loadConfig env_rejected state_start =
     ([FetchConfig, Alert ''Failed to load configuration: Missing facilitator_base_url''],
      state_start\<lparr>CONFIG := Some raw_config_rejected\<rparr>, None)"
  by (simp add: loadConfig_def env_rejected_def env_ex_def raw_config_rejected_def
      raw_config_ex_def truthy_def)




lemma JSON_stringify_drops_undefined:
  "JSON_stringify (JObject (kvs @ (k, JUndefined) # kvs')) = JSON_stringify (JObject (kvs @ kvs'))"
  by (simp add: JSON_stringify.simps)

lemma builder_stale_events:
  "fst (createEIP3009Authorization env_rejected state_stale entropy_ex) =
     [ContractCall ''0x00000000000000000000000000000000000000bb'' ''name'',
      ContractCall ''0x00000000000000000000000000000000000000bb'' ''version'',
      GetRandomValues 32,
      SignTypedData ''0x00000000000000000000000000000000000000cA'' request_stale]"
proof -
  have drop: "JSON_stringify (JObject
           [(''from'', JString ''0x00000000000000000000000000000000000000cA''),
            (''to'', JString ''0x00000000000000000000000000000000000000AA''),
            (''value'', JUndefined),
            (''validAfter'', JString ''0''),
            (''validBefore'', JString ''1700086400''),
            (''nonce'',
             JString ''0x000102030405060708090a0b0c0d0e0f101112131415161718191a1b1c1d1e1f'')])
     = JSON_stringify (JObject
           [(''from'', JString ''0x00000000000000000000000000000000000000cA''),
            (''to'', JString ''0x00000000000000000000000000000000000000AA''),
            (''validAfter'', JString ''0''),
            (''validBefore'', JString ''1700086400''),
            (''nonce'',
             JString ''0x000102030405060708090a0b0c0d0e0f101112131415161718191a1b1c1d1e1f'')])"
    using JSON_stringify_drops_undefined
      [of "[(''from'', JString ''0x00000000000000000000000000000000000000cA''),
            (''to'', JString ''0x00000000000000000000000000000000000000AA'')]" "''value''"]
    by simp
  have outer: "JSON_stringify (JObject [t, p, d, (''message'', m)])
      = JSON_stringify (JObject [t, p, d, (''message'', m')])"
    if "JSON_stringify m = JSON_stringify m'" "m \<noteq> JUndefined" "m' \<noteq> JUndefined" for t p d m m'
    using that by (simp add: JSON_stringify.simps(8))
  show ?thesis
    by (simp add: createEIP3009Authorization_def env_rejected_def env_ex_def state_stale_def
      state_ex_def raw_config_rejected_def raw_config_ex_def getRandomValues_def Uint8Array_def
      Let_def nonce_ex valid_before_ex chain_id_ex request_stale_def typed_data_def
      opt_number_def opt_string_def outer [OF drop])
qed

subsection \<open>The runs of initiatePayment\<close>


lemma loadConfig_None:
  assumes "loadConfig env s = (evs, s', None)"
  shows "CONFIG s' = CONFIG s \<or> (\<exists>c. CONFIG s' = Some c)"
  using assms unfolding loadConfig_def Let_def
  by (auto split: config_fetch.splits if_splits)

lemma builder_events_not_paid:
  assumes "createEIP3009Authorization env s ent = (evs, ent', res)"
  shows "\<not> list_ex is_paid_request evs"
  using assms
  unfolding createEIP3009Authorization_def Let_def getRandomValues_def Uint8Array_def
  by (auto simp: is_paid_request_def split: if_splits option.splits sum.splits)












subsection \<open>The ledger keeps its unique indexes\<close>

lemma check_row_None:
  "check_row r others = None \<Longrightarrow>
     row_id r \<notin> set (map row_id others) \<and> payment_hash r \<notin> set (map payment_hash others)"
  by (simp add: check_row_def split: if_splits)

lemma distinct_map_filter': "distinct (map f xs) \<Longrightarrow> distinct (map f (filter P xs))"
  by (induction xs) auto

lemma map_replace_filter:
  assumes "distinct (map row_id t)" "k \<in> set (map row_id t)"
  shows "\<exists>pre post x. t = pre @ x # post \<and> row_id x = k
          \<and> filter (\<lambda>x. row_id x \<noteq> k) t = pre @ post
          \<and> map (\<lambda>x. if row_id x = k then r else x) t = pre @ r # post"
proof -
  from assms(2) obtain x where "x \<in> set t" "row_id x = k" by auto
  then obtain pre post where t: "t = pre @ x # post" by (meson split_list)
  with assms(1) \<open>row_id x = k\<close> have "k \<notin> row_id ` set pre" "k \<notin> row_id ` set post"
    by auto
  then have "\<forall>y \<in> set pre \<union> set post. row_id y \<noteq> k"
    by (metis Un_iff imageI)
  then have "filter (\<lambda>x. row_id x \<noteq> k) pre = pre" "filter (\<lambda>x. row_id x \<noteq> k) post = post"
    "map (\<lambda>x. if row_id x = k then r else x) pre = pre"
    "map (\<lambda>x. if row_id x = k then r else x) post = post"
    by (force simp: filter_id_conv image_iff intro: map_idI)+
  with t \<open>row_id x = k\<close> show ?thesis by auto
qed

lemma execute_ok:
  assumes "ledger_ok t" "execute st t = Inr t'"
  shows "ledger_ok t'"
proof (cases st)
  case (Insert r)
  with assms show ?thesis
    by (auto simp: ledger_ok_def dest: check_row_None split: option.splits)
next
  case (Update k r)
  show ?thesis
  proof (cases "k \<in> set (map row_id t)")
    case False
    with assms Update show ?thesis by simp
  next
    case True
    with assms Update have chk: "check_row r (filter (\<lambda>x. row_id x \<noteq> k) t) = None"
      and t': "t' = map (\<lambda>x. if row_id x = k then r else x) t"
      by (auto split: option.splits)
    from assms(1) have d: "distinct (map row_id t)" by (simp add: ledger_ok_def)
    from map_replace_filter [OF d True, of r] obtain pre post x where
      t: "t = pre @ x # post" and f: "filter (\<lambda>x. row_id x \<noteq> k) t = pre @ post"
      and m: "map (\<lambda>x. if row_id x = k then r else x) t = pre @ r # post"
      by blast
    from check_row_None [OF chk] f
    have "row_id r \<notin> set (map row_id (pre @ post))"
      "payment_hash r \<notin> set (map payment_hash (pre @ post))" by simp_all
    with assms(1) t show ?thesis
      unfolding t' m ledger_ok_def by auto
  qed
next
  case (Delete k)
  with assms show ?thesis
    by (auto simp: ledger_ok_def distinct_map_filter')
qed

lemma run_statements_ok: "ledger_ok t \<Longrightarrow> ledger_ok (run_statements sts t)"
proof (induction sts arbitrary: t)
  case Nil
  then show ?case by simp
next
  case (Cons st sts)
  show ?case
  proof (cases "execute st t")
    case (Inl e)
    with Cons show ?thesis by simp
  next
    case (Inr t')
    with Cons execute_ok [OF Cons.prems Inr] show ?thesis by simp
  qed
qed

section \<open>Decoding reads back what encoding writes\<close>

subsection \<open>base64\<close>











subsection \<open>Strings\<close>






lemma parse_QuoteJSONString:
  "QuoteJSONString s @ rest = CHR 0x22 # concat (map json_escape_char s) @ CHR 0x22 # rest"
  by (simp add: QuoteJSONString_def)

subsection \<open>Numbers\<close>







subsection \<open>Values\<close>

lemma skip_ws_id: "t \<noteq> [] \<Longrightarrow> \<not> is_json_whitespace (hd t) \<Longrightarrow> skip_ws t = t"
  by (cases t) (simp_all add: skip_ws_def)


lemma delimited_skip_ws: "delimited rest \<Longrightarrow> skip_ws rest = rest"
  by (cases rest) (auto simp: delimited_def skip_ws_def is_json_whitespace_def)
















subsection \<open>The envelope\<close>


subsection \<open>The example request\<close>



section \<open>The claims\<close>

text \<open>
  C9. Every nonce the builder produces is the string \<^verbatim>\<open>0x\<close> followed by exactly 64
  lowercase hexadecimal digits: each of the 32 random bytes is rendered as two digits, zero
  padded, so the nonce encodes exactly 32 bytes.
\<close>

theorem nonce_is_0x_and_64_hex_digits:
  assumes "createEIP3009Authorization env s ent = (evs, ent', Inr r)"
  shows "nonce_format (auth_nonce (authorization r))
         \<and> auth_nonce (authorization r) = ''0x'' @ concat (map hex_pair (map ent [0..<32]))
         \<and> length (map ent [0..<32]) = 32"
proof -
  from assms have "auth_nonce (authorization r) = make_nonce (map ent [0..<32])"
    by (rule createEIP3009Authorization_Inr) simp
  then have n: "auth_nonce (authorization r) = ''0x'' @ concat (map hex_pair (map ent [0..<32]))"
    by (simp only: make_nonce_hex_pairs)
  have "length (concat (map hex_pair (map ent [0..<32]))) = 64"
    using hex_pairs_length [of "map ent [0..<32]"] by simp
  moreover have "list_all lower_hex_digit (concat (map hex_pair (map ent [0..<32])))"
    by (rule hex_pairs_digits)
  ultimately have "nonce_format (''0x'' @ concat (map hex_pair (map ent [0..<32])))"
    by (simp add: nonce_format_def)
  with n show ?thesis by simp
qed

theorem nonce_is_0x_and_64_hex_digits_witness:
  "snd (snd (createEIP3009Authorization env_ex state_ex entropy_ex)) = Inr signed_ex
   \<and> nonce_format (auth_nonce (authorization signed_ex))"
  using nonce_is_0x_and_64_hex_digits [OF builder_ex_run] builder_ex by blast

text \<open>
  C2. In every authorization the builder produces, \<^verbatim>\<open>validAfter\<close> is \<^verbatim>\<open>0\<close> and
  \<^verbatim>\<open>validBefore\<close> is the current unix time in seconds plus 86400, whatever the state and
  the configuration are: the builder takes no argument that could change them.
\<close>

theorem validity_window_is_fixed:
  assumes "createEIP3009Authorization env s ent = (evs, ent', Inr r)"
  shows "auth_validAfter (authorization r) = ''0''
         \<and> auth_validBefore (authorization r) = Number_toString (Date_now env div 1000 + 86400)"
  using assms by (rule createEIP3009Authorization_Inr) simp

theorem validity_window_is_fixed_witness:
  "snd (snd (createEIP3009Authorization env_ex state_ex entropy_ex)) = Inr signed_ex
   \<and> auth_validAfter (authorization signed_ex) = ''0''
   \<and> auth_validBefore (authorization signed_ex) = Number_toString (1700000000123 div 1000 + 86400)"
proof -
  have "Date_now env_ex = 1700000000123" by (simp add: env_ex_def)
  then show ?thesis
    using validity_window_is_fixed [OF builder_ex_run] builder_ex by simp
qed







text \<open>
  C3. Every signing request of the builder is over the typed data whose message has the six
  fields \<^verbatim>\<open>from, to, value, validAfter, validBefore, nonce\<close>. The code misses this after a
  response that \<^verbatim>\<open>loadConfig\<close> rejects: \<^verbatim>\<open>loadConfig\<close> returns \<^verbatim>\<open>null\<close>, the response
  stays in \<^verbatim>\<open>CONFIG\<close> without a total price, the builder runs, and the text it hands to the
  wallet is \<open>request_stale\<close>, whose message has five fields and no value. The primary type,
  the domain and the other five fields are as the claim says.
\<close>

theorem signing_request_after_rejected_config:
  "snd (snd (loadConfig env_rejected state_start)) = None
   \<and> CONFIG (fst (snd (loadConfig env_rejected state_start))) = Some raw_config_rejected
   \<and> CONFIG state_stale = Some raw_config_rejected
   \<and> fst (createEIP3009Authorization env_rejected state_stale entropy_ex) =
       [ContractCall ''0x00000000000000000000000000000000000000bb'' ''name'',
        ContractCall ''0x00000000000000000000000000000000000000bb'' ''version'',
        GetRandomValues 32,
        SignTypedData ''0x00000000000000000000000000000000000000cA'' request_stale]"
proof -
  have "CONFIG state_stale = Some raw_config_rejected"
    by (simp add: state_stale_def)
  then show ?thesis
    by (simp add: loadConfig_rejected builder_stale_events)
qed

text \<open>
  C4, as stated: a colliding nonce is surfaced as a build failure. It is not: the builder
  compares the nonce with nothing. With a random source that repeats itself, two invocations in
  a row both succeed and return the same nonce.
\<close>

theorem colliding_nonce_is_not_detected:
  "snd (snd (createEIP3009Authorization env_ex state_ex entropy_const)) = Inr signed_const
   \<and> snd (snd (createEIP3009Authorization env_ex state_ex
         (fst (snd (createEIP3009Authorization env_ex state_ex entropy_const)))))
       = Inr signed_const"
  by (simp add: builder_const)

text \<open>
  C4, amended. An invocation draws from \<^verbatim>\<open>window.crypto.getRandomValues\<close> at most once, and
  then exactly 32 bytes; every authorization it returns has the nonce made of exactly the 32
  bytes drawn in that invocation; the bytes drawn are used up, also when the signing fails
  afterwards, so that the next invocation makes its nonce from the 32 bytes that follow. The
  builder performs no collision check.
\<close>

theorem nonce_is_32_fresh_bytes:
  assumes "createEIP3009Authorization env s ent = (evs, ent', res)"
  shows "(filter is_random_draw evs = [] \<or> filter is_random_draw evs = [GetRandomValues 32])
       \<and> (res = Inr r \<longrightarrow>
            GetRandomValues 32 \<in> set evs
            \<and> auth_nonce (authorization r) = make_nonce (map ent [0..<32]))
       \<and> (GetRandomValues n \<in> set evs \<longrightarrow> n = 32 \<and> ent' = (\<lambda>i. ent (i + 32)))
       \<and> ((\<forall>n. GetRandomValues n \<notin> set evs) \<longrightarrow> ent' = ent)
       \<and> (GetRandomValues n \<in> set evs
            \<and> createEIP3009Authorization env2 s2 ent' = (evs2, ent2, Inr r2) \<longrightarrow>
            auth_nonce (authorization r2) = make_nonce (map ent [32..<64]))"
proof -
  have draws: "(filter is_random_draw evs = [] \<and> ent' = ent \<and> (\<forall>r. res \<noteq> Inr r)
                 \<and> (\<forall>n. GetRandomValues n \<notin> set evs))
         \<or> (filter is_random_draw evs = [GetRandomValues 32]
            \<and> ent' = (\<lambda>i. ent (i + 32)) \<and> (\<forall>n. GetRandomValues n \<in> set evs \<longrightarrow> n = 32)
            \<and> GetRandomValues 32 \<in> set evs)"
    using assms
    unfolding createEIP3009Authorization_def Let_def getRandomValues_def Uint8Array_def
    by (auto simp: is_random_draw_def split: if_splits option.splits sum.splits)
  have first: "auth_nonce (authorization r) = make_nonce (map ent [0..<32])" if "res = Inr r"
  proof -
    from assms that have "createEIP3009Authorization env s ent = (evs, ent', Inr r)" by simp
    then show ?thesis by (rule createEIP3009Authorization_Inr) simp
  qed
  have second: "auth_nonce (authorization r2) = make_nonce (map ent [32..<64])"
    if "ent' = (\<lambda>i. ent (i + 32))"
      and "createEIP3009Authorization env2 s2 ent' = (evs2, ent2, Inr r2)"
  proof -
    from that(2) have "auth_nonce (authorization r2) = make_nonce (map ent' [0..<32])"
      by (rule createEIP3009Authorization_Inr) simp
    moreover have "map ent' [0..<32] = map ent [32..<64]"
      unfolding that(1) using map_shift [of ent 32 32] by simp
    ultimately show ?thesis by simp
  qed
  from draws first second show ?thesis by blast
qed

theorem nonce_is_32_fresh_bytes_witness:
  "snd (snd (createEIP3009Authorization env_ex state_ex entropy_ex)) = Inr signed_ex
   \<and> GetRandomValues 32 \<in> set (fst (createEIP3009Authorization env_ex state_ex entropy_ex))
   \<and> auth_nonce (authorization signed_ex) = make_nonce (map entropy_ex [0..<32])
   \<and> (case snd (snd (createEIP3009Authorization env_ex state_ex
                (fst (snd (createEIP3009Authorization env_ex state_ex entropy_ex))))) of
         Inl e \<Rightarrow> False
       | Inr r2 \<Rightarrow> auth_nonce (authorization r2) = make_nonce (map entropy_ex [32..<64]))"
proof -
  let ?run = "createEIP3009Authorization env_ex state_ex entropy_ex"
  let ?run2 = "createEIP3009Authorization env_ex state_ex (fst (snd ?run))"
  have ev: "GetRandomValues 32 \<in> set (fst ?run)"
    by (simp add: builder_ex_events)
  obtain r2 where r2: "snd (snd ?run2) = Inr r2"
    using builder_ex_succeeds by blast
  then have run2: "?run2 = (fst ?run2, fst (snd ?run2), Inr r2)"
    by (simp add: prod_eq_iff)
  note inst = nonce_is_32_fresh_bytes [OF builder_ex_run, of signed_ex 32 env_ex state_ex
      "fst ?run2" "fst (snd ?run2)" r2]
  from inst ev have "auth_nonce (authorization signed_ex) = make_nonce (map entropy_ex [0..<32])"
    by blast
  moreover from inst ev run2
  have "auth_nonce (authorization r2) = make_nonce (map entropy_ex [32..<64])"
    by blast
  ultimately show ?thesis
    using builder_ex ev r2 by simp
qed






text \<open>
  C8. In the payment ledger a payment key (the column \<^verbatim>\<open>payment_hash\<close>) identifies at most
  one record: whatever statements have run on the table since the migration created it, no two
  rows share a payment key, and an insert whose payment key is that of a row already there is
  rejected.
\<close>

theorem payment_key_identifies_one_record:
  "distinct (map payment_hash (run_statements sts []))
   \<and> (r \<in> set t \<and> payment_hash r' = payment_hash r \<longrightarrow> (\<exists>e. execute (Insert r') t = Inl e))"
proof -
  have "ledger_ok (run_statements sts [])"
    by (rule run_statements_ok) (simp add: ledger_ok_def)
  moreover have "\<exists>e. execute (Insert r') t = Inl e"
    if "r \<in> set t" "payment_hash r' = payment_hash r"
  proof -
    from that have "payment_hash r' \<in> set (map payment_hash t)" by auto
    then have "check_row r' t \<noteq> None" by (auto simp: check_row_def)
    then show ?thesis by (auto split: option.splits)
  qed
  ultimately show ?thesis by (simp add: ledger_ok_def)
qed

theorem payment_key_identifies_one_record_witness:
  "run_statements [Insert row_ex] [] = [row_ex]
   \<and> row_ex \<in> set [row_ex]
   \<and> payment_hash (row_ex\<lparr>row_id := 2\<rparr>) = payment_hash row_ex
   \<and> execute (Insert (row_ex\<lparr>row_id := 2\<rparr>)) [row_ex]
       = Inl (unique_violation ''payment_transactions_payment_hash_key'')
   \<and> distinct (map payment_hash (run_statements [Insert row_ex, Insert (row_ex\<lparr>row_id := 2\<rparr>)] []))"
proof -
  have a: "run_statements [Insert row_ex] [] = [row_ex]"
    by (simp add: check_row_def fits_def row_ex_def)
  have b: "execute (Insert (row_ex\<lparr>row_id := 2\<rparr>)) [row_ex]
       = Inl (unique_violation ''payment_transactions_payment_hash_key'')"
    by (simp add: check_row_def fits_def row_ex_def)
  from payment_key_identifies_one_record
    [of "[Insert row_ex, Insert (row_ex\<lparr>row_id := 2\<rparr>)]" row_ex "[row_ex]" "row_ex\<lparr>row_id := 2\<rparr>"]
  have "distinct (map payment_hash (run_statements [Insert row_ex, Insert (row_ex\<lparr>row_id := 2\<rparr>)] []))"
    by blast
  with a b show ?thesis by simp
qed


section \<open>The envelope read back\<close>



end
